theory Spec2Isabelle
  imports Main
begin

section \<open>JavaScript values\<close>

text \<open>
  The values the client handles: what \<open>JSON.parse\<close> returns, plus \<open>undefined\<close>.
  An object is the list of its own properties in enumeration order. Numbers are the
  integers (those that print in plain decimal); the client only tests a number for
  zero and prints it.
\<close>

datatype jsval =
    JUndefined
  | JNull
  | JBool bool
  | JNum int
  | JStr string
  | JArr "jsval list"
  | JObj "(string \<times> jsval) list"

text \<open>Truthiness, as \<open>if (v)\<close>, \<open>!v\<close>, \<open>a || b\<close> and \<open>a && b\<close> test it.\<close>

fun truthy :: "jsval \<Rightarrow> bool" where
  "truthy JUndefined = False"
| "truthy JNull = False"
| "truthy (JBool b) = b"
| "truthy (JNum n) = (n \<noteq> 0)"
| "truthy (JStr s) = (s \<noteq> [])"
| "truthy (JArr xs) = True"
| "truthy (JObj kvs) = True"

definition js_or :: "jsval \<Rightarrow> jsval \<Rightarrow> jsval" where
  "js_or a b = (if truthy a then a else b)"

definition js_and :: "jsval \<Rightarrow> jsval \<Rightarrow> jsval" where
  "js_and a b = (if truthy a then b else a)"

fun nullish :: "jsval \<Rightarrow> bool" where
  "nullish JUndefined = True"
| "nullish JNull = True"
| "nullish v = False"

text \<open>
  \<open>v.k\<close> for a value that is neither \<open>null\<close> nor \<open>undefined\<close>, and for the property
  names the client reads (\<open>error\<close>, \<open>details\<close>, \<open>token\<close>, \<open>user\<close>, \<open>needsVerification\<close>,
  \<open>success\<close>, \<open>message\<close>): none of them is a property of a string, an array, a number
  or a boolean, so only an object can have one.
\<close>

fun field :: "jsval \<Rightarrow> string \<Rightarrow> jsval" where
  "field (JObj kvs) k = (case map_of kvs k of Some v \<Rightarrow> v | None \<Rightarrow> JUndefined)"
| "field v k = JUndefined"

text \<open>\<open>v?.k\<close>: \<open>undefined\<close> instead of a TypeError on \<open>null\<close> and \<open>undefined\<close>.\<close>

definition opt_field :: "jsval \<Rightarrow> string \<Rightarrow> jsval" where
  "opt_field v k = (if nullish v then JUndefined else field v k)"

fun is_string :: "jsval \<Rightarrow> bool" where
  "is_string (JStr s) = True"
| "is_string v = False"

subsection \<open>Conversion to string\<close>

text \<open>A number prints in decimal, with a minus sign when negative.\<close>

function decimal :: "nat \<Rightarrow> string" where
  "decimal n =
     (if n < 10 then [''0123456789'' ! n]
      else decimal (n div 10) @ [''0123456789'' ! (n mod 10)])"
  by pat_completeness auto
termination
  by (relation "measure id") auto

definition number_text :: "int \<Rightarrow> string" where
  "number_text i = (if 0 \<le> i then decimal (nat i) else CHR ''-'' # decimal (nat (- i)))"

fun join :: "string \<Rightarrow> string list \<Rightarrow> string" where
  "join sep [] = []"
| "join sep [x] = x"
| "join sep (x # y # ys) = x @ sep @ join sep (y # ys)"

text \<open>
  \<open>String(v)\<close>. An array prints its elements separated by commas, \<open>null\<close> and
  \<open>undefined\<close> elements as the empty string; an object prints as \<open>[object Object]\<close>.
\<close>

fun js_to_string :: "jsval \<Rightarrow> string" where
  "js_to_string JUndefined = ''undefined''"
| "js_to_string JNull = ''null''"
| "js_to_string (JBool b) = (if b then ''true'' else ''false'')"
| "js_to_string (JNum n) = number_text n"
| "js_to_string (JStr s) = s"
| "js_to_string (JArr xs) =
     join '','' (map (\<lambda>x. if nullish x then [] else js_to_string x) xs)"
| "js_to_string (JObj kvs) = ''[object Object]''"

text \<open>\<open>s.includes(p)\<close> on strings: \<open>p\<close> occurs in \<open>s\<close>.\<close>

fun includes_str :: "string \<Rightarrow> string \<Rightarrow> bool" where
  "includes_str [] p = (p = [])"
| "includes_str (c # cs) p = (take (length p) (c # cs) = p \<or> includes_str cs p)"

section \<open>Errors\<close>

text \<open>
  What the client throws and catches. \<open>APIError\<close> is the class of \<open>api.js\<close> with its
  \<open>message\<close>, \<open>status\<close> and \<open>details\<close>; \<open>Error\<close> is a plain error thrown by a handler;
  \<open>TypeError\<close> is raised by the engine, with the engine's text.
\<close>

datatype js_error =
    APIError string nat jsval
  | Error string
  | TypeError string

fun err_message :: "js_error \<Rightarrow> string" where
  "err_message (APIError m st d) = m"
| "err_message (Error m) = m"
| "err_message (TypeError m) = m"

fun err_details :: "js_error \<Rightarrow> jsval" where
  "err_details (APIError m st d) = d"
| "err_details (Error m) = JUndefined"
| "err_details (TypeError m) = JUndefined"

fun err_name :: "js_error \<Rightarrow> string" where
  "err_name (APIError m st d) = ''Error''"
| "err_name (Error m) = ''Error''"
| "err_name (TypeError m) = ''TypeError''"

text \<open>The engine's texts, in V8's wording.\<close>

definition read_null_text :: string where
  "read_null_text = ''Cannot read properties of null (reading 'details')''"

definition destructure_null_text :: string where
  "destructure_null_text = ''Cannot destructure property 'token' of 'response' as it is null.''"

definition not_a_function_text :: string where
  "not_a_function_text = ''error.details?.includes is not a function''"

section \<open>The transport client (api.js)\<close>

subsection \<open>Building the request\<close>

type_synonym headers = "string \<rightharpoonup> string"

text \<open>
  The \<open>options\<close> argument: each key is absent (\<open>None\<close>) or present. \<open>opt_body\<close> is the
  value handed to \<open>JSON.stringify\<close>.
\<close>

record options =
  opt_method :: "string option"
  opt_headers :: "headers option"
  opt_body :: "jsval option"
  opt_mode :: "string option"
  opt_credentials :: "string option"

definition no_options :: options where
  "no_options = \<lparr>opt_method = None, opt_headers = None, opt_body = None,
                  opt_mode = None, opt_credentials = None\<rparr>"

record config =
  cfg_method :: string
  cfg_headers :: headers
  cfg_mode :: string
  cfg_credentials :: string
  cfg_body :: "jsval option"

definition default_headers :: headers where
  "default_headers = [''Content-Type'' \<mapsto> ''application/json'', ''Accept'' \<mapsto> ''application/json'']"

text \<open>
  The object literal of \<open>apiRequest\<close>. Its \<open>headers\<close> entry is the two defaults
  overlaid by \<open>...options.headers\<close>. The literal ends with \<open>...options\<close>, which copies
  every key that \<open>options\<close> has over the entries written before it: \<open>method\<close>,
  \<open>mode\<close>, \<open>credentials\<close>, \<open>body\<close>, and \<open>headers\<close> too.
\<close>

definition spread_headers :: "headers option \<Rightarrow> headers" where
  "spread_headers h = (case h of None \<Rightarrow> Map.empty | Some m \<Rightarrow> m)"

definition headers_entry :: "options \<Rightarrow> headers" where
  "headers_entry opts = default_headers ++ spread_headers (opt_headers opts)"

definition config_literal :: "options \<Rightarrow> config" where
  "config_literal opts =
     \<lparr>cfg_method = (case opt_method opts of Some m \<Rightarrow> m | None \<Rightarrow> ''POST''),
      cfg_headers = (case opt_headers opts of Some h \<Rightarrow> h | None \<Rightarrow> headers_entry opts),
      cfg_mode = (case opt_mode opts of Some m \<Rightarrow> m | None \<Rightarrow> ''cors''),
      cfg_credentials = (case opt_credentials opts of Some c \<Rightarrow> c | None \<Rightarrow> ''include''),
      cfg_body = opt_body opts\<rparr>"

text \<open>\<open>localStorage\<close>'s \<open>auth_token\<close> slot: \<open>getItem\<close> gives \<open>null\<close> or a string.\<close>

type_synonym storage = "string option"

text \<open>\<open>if (token) config.headers.Authorization = `Bearer ${token}`\<close>\<close>

definition apiRequest_config :: "storage \<Rightarrow> options \<Rightarrow> config" where
  "apiRequest_config st opts =
     (let c = config_literal opts in
      case st of
        None \<Rightarrow> c
      | Some token \<Rightarrow>
          if token \<noteq> []
          then c\<lparr>cfg_headers := (cfg_headers c)(''Authorization'' \<mapsto> ''Bearer '' @ token)\<rparr>
          else c)"

record request =
  req_url :: string
  req_config :: config

definition apiRequest_request :: "string \<Rightarrow> storage \<Rightarrow> string \<Rightarrow> options \<Rightarrow> request" where
  "apiRequest_request base st endpoint opts =
     \<lparr>req_url = base @ endpoint, req_config = apiRequest_config st opts\<rparr>"

subsection \<open>Settling the response\<close>

text \<open>
  What \<open>fetch\<close> gives back: a rejection with its text, or a response. A response has
  its status and what \<open>json()\<close> and \<open>text()\<close> resolve to (\<open>Inl\<close> a rejection's text).
\<close>

record response =
  resp_status :: nat
  resp_json :: "string + jsval"
  resp_text :: "string + string"

datatype fetch_result = Rejected string | Responded response

text \<open>\<open>response.ok\<close>: the status is in the range 200 to 299.\<close>

definition resp_ok :: "response \<Rightarrow> bool" where
  "resp_ok r = (200 \<le> resp_status r \<and> resp_status r \<le> 299)"

text \<open>\<open>data = await response.json()\<close>, falling back to \<open>await response.text()\<close>.\<close>

definition read_body :: "response \<Rightarrow> string + jsval" where
  "read_body r =
     (case resp_json r of
        Inr d \<Rightarrow> Inr d
      | Inl e \<Rightarrow> (case resp_text r of Inr t \<Rightarrow> Inr (JStr t) | Inl e' \<Rightarrow> Inl e'))"

text \<open>
  The arguments of \<open>new APIError(...)\<close> for a response that is not ok. The third one,
  \<open>data.details || data\<close>, reads a property of \<open>data\<close> unguarded: on \<open>null\<close> the engine
  throws a TypeError.
\<close>

definition error_message_arg :: "jsval \<Rightarrow> jsval" where
  "error_message_arg data =
     js_or (js_and data (field data ''error''))
           (if is_string data then data else JStr ''Request failed'')"

definition error_details_arg :: "jsval \<Rightarrow> js_error + jsval" where
  "error_details_arg data =
     (if nullish data then Inl (TypeError read_null_text)
      else Inr (js_or (field data ''details'') data))"

text \<open>
  The \<open>try\<close> block of \<open>apiRequest\<close> after \<open>fetch\<close> has resolved: \<open>Inl\<close> what it throws.
\<close>

definition apiRequest_try :: "response \<Rightarrow> js_error + jsval" where
  "apiRequest_try r =
     (case read_body r of
        Inl e \<Rightarrow> Inl (TypeError e)
      | Inr data \<Rightarrow>
          if \<not> resp_ok r then
            (case error_details_arg data of
               Inl e \<Rightarrow> Inl e
             | Inr d \<Rightarrow> Inl (APIError (js_to_string (error_message_arg data)) (resp_status r) d))
          else Inr data)"

text \<open>
  The \<open>catch\<close> block: an \<open>APIError\<close> passes, anything else becomes the network error
  with status 0 and the caught error's text as details.
\<close>

fun apiRequest_catch :: "js_error \<Rightarrow> js_error" where
  "apiRequest_catch (APIError m st d) = APIError m st d"
| "apiRequest_catch e = APIError ''Network error'' 0 (JStr (err_message e))"

definition apiRequest :: "fetch_result \<Rightarrow> js_error + jsval" where
  "apiRequest f =
     (case f of
        Rejected e \<Rightarrow> Inl (apiRequest_catch (TypeError e))
      | Responded r \<Rightarrow>
          (case apiRequest_try r of
             Inl e \<Rightarrow> Inl (apiRequest_catch e)
           | Inr data \<Rightarrow> Inr data))"

subsection \<open>The operations (authAPI, userAPI, authHelpers)\<close>

text \<open>Each operation is the endpoint and the options it hands to \<open>apiRequest\<close>.\<close>

type_synonym api_call = "string \<times> options"

definition post_json :: "jsval \<Rightarrow> options" where
  "post_json b = no_options\<lparr>opt_method := Some ''POST'', opt_body := Some b\<rparr>"

definition authAPI_register :: "jsval \<Rightarrow> api_call" where
  "authAPI_register userData = (''/auth/register'', post_json userData)"

definition authAPI_login :: "jsval \<Rightarrow> api_call" where
  "authAPI_login credentials = (''/auth/login'', post_json credentials)"

definition authAPI_verifyEmail :: "string \<Rightarrow> string \<Rightarrow> api_call" where
  "authAPI_verifyEmail email code =
     (''/auth/verify-email'', post_json (JObj [(''email'', JStr email), (''otp'', JStr code)]))"

definition authAPI_forgotPassword :: "string \<Rightarrow> api_call" where
  "authAPI_forgotPassword email =
     (''/auth/forgot-password'', post_json (JObj [(''email'', JStr email)]))"

definition authAPI_resendOtp :: "string \<Rightarrow> api_call" where
  "authAPI_resendOtp email =
     (''/auth/resend-otp'', post_json (JObj [(''email'', JStr email)]))"

definition userAPI_getProfile :: api_call where
  "userAPI_getProfile = (''/users/me'', no_options)"

definition userAPI_updateProfile :: "jsval \<Rightarrow> api_call" where
  "userAPI_updateProfile profileData =
     (''/users/me'', no_options\<lparr>opt_method := Some ''PUT'', opt_body := Some profileData\<rparr>)"

text \<open>The request an operation sends.\<close>

definition send :: "string \<Rightarrow> storage \<Rightarrow> api_call \<Rightarrow> request" where
  "send base st c = apiRequest_request base st (fst c) (snd c)"

text \<open>\<open>localStorage.setItem\<close> stores the string form of its argument.\<close>

definition setToken :: "jsval \<Rightarrow> storage \<Rightarrow> storage" where
  "setToken token st = Some (js_to_string token)"

definition getToken :: "storage \<Rightarrow> storage" where
  "getToken st = st"

definition removeToken :: "storage \<Rightarrow> storage" where
  "removeToken st = None"

text \<open>\<open>!!localStorage.getItem('auth_token')\<close>\<close>

definition isAuthenticated :: "storage \<Rightarrow> bool" where
  "isAuthenticated st = (case st of None \<Rightarrow> False | Some token \<Rightarrow> token \<noteq> [])"

section \<open>The verification modal (OTPVerificationModal.tsx)\<close>

record toast =
  title :: string
  description :: jsval
  destructive :: bool

text \<open>
  The component's state variables (\<open>otp\<close>, \<open>isLoading\<close>, \<open>isResending\<close>, \<open>timeLeft\<close>),
  its \<open>countdownRef\<close>, and what it does to its surroundings: the intervals it has
  running (\<open>timers\<close>, handles handed out from \<open>nextTimer\<close>), the requests it has sent,
  the toasts it has shown, and how often it has called \<open>onVerificationSuccess\<close> and
  \<open>onClose\<close>. React drops a state update of a component that is no longer mounted.
  Logging and input focus are left out: they change none of these.
\<close>

record otp_state =
  otp :: string
  isLoading :: bool
  isResending :: bool
  timeLeft :: int
  countdownRef :: "nat option"
  mounted :: bool
  timers :: "nat list"
  nextTimer :: nat
  calls :: "api_call list"
  toasts :: "toast list"
  verified :: nat
  closed :: nat

definition otp_init :: otp_state where
  "otp_init = \<lparr>otp = [], isLoading = False, isResending = False, timeLeft = 0,
               countdownRef = None, mounted = True, timers = [], nextTimer = 1,
               calls = [], toasts = [], verified = 0, closed = 0\<rparr>"

definition setOtp :: "string \<Rightarrow> otp_state \<Rightarrow> otp_state" where
  "setOtp v s = (if mounted s then s\<lparr>otp := v\<rparr> else s)"

definition setIsLoading :: "bool \<Rightarrow> otp_state \<Rightarrow> otp_state" where
  "setIsLoading b s = (if mounted s then s\<lparr>isLoading := b\<rparr> else s)"

definition setIsResending :: "bool \<Rightarrow> otp_state \<Rightarrow> otp_state" where
  "setIsResending b s = (if mounted s then s\<lparr>isResending := b\<rparr> else s)"

definition show_toast :: "toast \<Rightarrow> otp_state \<Rightarrow> otp_state" where
  "show_toast t s = s\<lparr>toasts := toasts s @ [t]\<rparr>"

definition clearInterval :: "nat \<Rightarrow> otp_state \<Rightarrow> otp_state" where
  "clearInterval t s = s\<lparr>timers := removeAll t (timers s)\<rparr>"

text \<open>\<open>if (countdownRef.current) clearInterval(countdownRef.current)\<close>\<close>

definition clear_countdown :: "otp_state \<Rightarrow> otp_state" where
  "clear_countdown s = (case countdownRef s of None \<Rightarrow> s | Some t \<Rightarrow> clearInterval t s)"

text \<open>\<open>/\D/\<close> matches every character but the ten digits.\<close>

definition is_digit :: "char \<Rightarrow> bool" where
  "is_digit c = (c \<in> set ''0123456789'')"

text \<open>\<open>v.replace(/\D/g, '').slice(0, 6)\<close>\<close>

definition digits6 :: "string \<Rightarrow> string" where
  "digits6 v = take 6 (filter is_digit v)"

text \<open>\<open>otp.length !== 6 || !/^\d{6}$/.test(otp)\<close> is the negation of this.\<close>

definition otp_format_ok :: "string \<Rightarrow> bool" where
  "otp_format_ok code = (length code = 6 \<and> list_all is_digit code)"

definition invalid_otp_toast :: toast where
  "invalid_otp_toast = \<lparr>title = ''Invalid OTP'',
     description = JStr ''Please enter a valid 6-digit code.'', destructive = True\<rparr>"

text \<open>
  \<open>handleVerify\<close> up to its \<open>await\<close>. A handler is a closure of the render that made
  it: the \<open>otp\<close> it reads is that render's, \<open>r\<close>, whatever \<open>setOtp\<close> has been called
  with since; its setters write the state \<open>s\<close>.
\<close>

definition handleVerify :: "otp_state \<Rightarrow> string \<Rightarrow> otp_state \<Rightarrow> otp_state" where
  "handleVerify r email s =
     (if \<not> otp_format_ok (otp r) then show_toast invalid_otp_toast s
      else (setIsLoading True s)\<lparr>calls := calls s @ [authAPI_verifyEmail email (otp r)]\<rparr>)"

text \<open>\<open>response?.success || response?.message\<close>\<close>

definition response_accepted :: "jsval \<Rightarrow> bool" where
  "response_accepted resp =
     truthy (js_or (opt_field resp ''success'') (opt_field resp ''message''))"

text \<open>
  The \<open>catch\<close> blocks of the modal. No error the client throws has a \<open>response\<close>
  property, so \<open>error.response?.data?.error\<close> is undefined and the message is the
  error's own when it is not empty.
\<close>

definition caught_message :: "string \<Rightarrow> js_error \<Rightarrow> string" where
  "caught_message dflt e = (if err_message e \<noteq> [] then err_message e else dflt)"

definition handleVerify_catch :: "js_error \<Rightarrow> otp_state \<Rightarrow> otp_state" where
  "handleVerify_catch e s =
     show_toast \<lparr>title = ''Verification failed'',
       description = JStr (caught_message ''Invalid or expired OTP code. Please try again.'' e),
       destructive = True\<rparr> s"

text \<open>\<open>handleVerify\<close> from the point where \<open>authAPI.verifyEmail\<close> has settled.\<close>

definition handleVerify_done :: "js_error + jsval \<Rightarrow> otp_state \<Rightarrow> otp_state" where
  "handleVerify_done outcome s =
     setIsLoading False
       (case outcome of
          Inl e \<Rightarrow> handleVerify_catch e s
        | Inr resp \<Rightarrow>
            if response_accepted resp then
              (show_toast \<lparr>title = ''Email verified!'',
                 description = js_or (field resp ''message'')
                   (JStr ''Your account has been successfully verified. You can now sign in.''),
                 destructive = False\<rparr> s)
              \<lparr>verified := Suc (verified s), closed := Suc (closed s)\<rparr>
            else handleVerify_catch (Error ''Verification failed. Please try again.'') s)"

text \<open>\<open>handleResendOTP\<close> up to its \<open>await\<close>.\<close>

definition handleResendOTP :: "string \<Rightarrow> otp_state \<Rightarrow> otp_state" where
  "handleResendOTP email s =
     (if isResending s \<or> timeLeft s > 0 then s
      else (setIsResending True s)\<lparr>calls := calls s @ [authAPI_resendOtp email]\<rparr>)"

text \<open>\<open>setTimeLeft(60)\<close> and \<open>countdownRef.current = setInterval(...)\<close>\<close>

definition start_countdown :: "otp_state \<Rightarrow> otp_state" where
  "start_countdown s =
     (if mounted s then s\<lparr>timeLeft := 60\<rparr> else s)
       \<lparr>countdownRef := Some (nextTimer s), timers := timers s @ [nextTimer s],
        nextTimer := Suc (nextTimer s)\<rparr>"

definition handleResendOTP_catch :: "js_error \<Rightarrow> otp_state \<Rightarrow> otp_state" where
  "handleResendOTP_catch e s =
     show_toast \<lparr>title = ''Error'',
       description = JStr (caught_message ''Failed to resend verification code. Please try again.'' e),
       destructive = True\<rparr> s"

text \<open>\<open>handleResendOTP\<close> from the point where \<open>authAPI.resendOtp\<close> has settled.\<close>

definition handleResendOTP_done :: "js_error + jsval \<Rightarrow> otp_state \<Rightarrow> otp_state" where
  "handleResendOTP_done outcome s =
     setIsResending False
       (case outcome of
          Inl e \<Rightarrow> handleResendOTP_catch e s
        | Inr resp \<Rightarrow>
            if response_accepted resp then
              start_countdown (clear_countdown
                (show_toast \<lparr>title = ''OTP resent'',
                   description = js_or (field resp ''message'')
                     (JStr ''A new verification code has been sent to your email.''),
                   destructive = False\<rparr> s))
            else handleResendOTP_catch (Error ''Failed to resend OTP'') s)"

text \<open>
  The interval's callback, for the interval \<open>t\<close>: it runs only while \<open>t\<close> is running,
  and its state update only while the component is mounted.
\<close>

definition tick :: "nat \<Rightarrow> otp_state \<Rightarrow> otp_state" where
  "tick t s =
     (if t \<in> set (timers s) \<and> mounted s then
        (if timeLeft s \<le> 1 then
           (case countdownRef s of
              None \<Rightarrow> s
            | Some c \<Rightarrow> (clearInterval c s)\<lparr>countdownRef := None\<rparr>)\<lparr>timeLeft := 0\<rparr>
         else s\<lparr>timeLeft := timeLeft s - 1\<rparr>)
      else s)"

text \<open>The effect's cleanup, run when the component unmounts.\<close>

definition unmount :: "otp_state \<Rightarrow> otp_state" where
  "unmount s = (clear_countdown s)\<lparr>mounted := False\<rparr>"

text \<open>
  \<open>handleOtpChange\<close> with the field's new content and \<open>handlePaste\<close> with the pasted
  text. Both call \<open>handleVerify\<close> of their own render.
\<close>

definition handleOtpChange :: "string \<Rightarrow> string \<Rightarrow> otp_state \<Rightarrow> otp_state" where
  "handleOtpChange email v s =
     (let val = digits6 v; s1 = setOtp val s
      in if length val = 6 then handleVerify s email s1 else s1)"

definition handlePaste :: "string \<Rightarrow> string \<Rightarrow> otp_state \<Rightarrow> otp_state" where
  "handlePaste email v s =
     (let pastedData = digits6 v
      in if pastedData \<noteq> [] then
           (let s1 = setOtp pastedData s
            in if length pastedData = 6 then handleVerify s email s1 else s1)
         else s)"

text \<open>
  What can happen to a mounted modal: the user's input, the form's submission, a click
  on resend, a request settling, an interval firing, the unmount. The user's events
  reach a mounted component only.
\<close>

datatype otp_event =
    Change string
  | Paste string
  | Submit
  | VerifySettled "js_error + jsval"
  | ClickResend
  | ResendSettled "js_error + jsval"
  | Tick nat
  | Unmount

fun otp_step :: "string \<Rightarrow> otp_state \<Rightarrow> otp_event \<Rightarrow> otp_state" where
  "otp_step email s (Change v) = (if mounted s then handleOtpChange email v s else s)"
| "otp_step email s (Paste v) = (if mounted s then handlePaste email v s else s)"
| "otp_step email s Submit = (if mounted s then handleVerify s email s else s)"
| "otp_step email s (VerifySettled outcome) = handleVerify_done outcome s"
| "otp_step email s ClickResend = (if mounted s then handleResendOTP email s else s)"
| "otp_step email s (ResendSettled outcome) = handleResendOTP_done outcome s"
| "otp_step email s (Tick t) = tick t s"
| "otp_step email s Unmount = unmount s"

definition otp_run :: "string \<Rightarrow> otp_event list \<Rightarrow> otp_state" where
  "otp_run email evs = foldl (otp_step email) otp_init evs"

section \<open>The sign-in modal (AuthModal)\<close>

text \<open>
  The modal's state variables, the \<open>auth_token\<close> slot of \<open>localStorage\<close>, and what the
  modal does to its surroundings: requests sent, toasts shown, the calls of
  \<open>onLoginSuccess(user, token)\<close>, the number of calls of \<open>onClose\<close>, and the errors
  that leave a handler uncaught.
\<close>

record auth_state =
  activeTab :: string
  auth_isLoading :: bool
  isOTPModalOpen :: bool
  isForgotPasswordOpen :: bool
  pendingVerificationEmail :: string
  auth_token :: storage
  auth_calls :: "api_call list"
  auth_toasts :: "toast list"
  loginSuccess :: "(jsval \<times> jsval) list"
  auth_closed :: nat
  unhandled :: "js_error list"

definition auth_init :: auth_state where
  "auth_init = \<lparr>activeTab = ''login'', auth_isLoading = False, isOTPModalOpen = False,
                isForgotPasswordOpen = False, pendingVerificationEmail = [],
                auth_token = None, auth_calls = [], auth_toasts = [], loginSuccess = [],
                auth_closed = 0, unhandled = []\<rparr>"

definition auth_toast :: "toast \<Rightarrow> auth_state \<Rightarrow> auth_state" where
  "auth_toast t s = s\<lparr>auth_toasts := auth_toasts s @ [t]\<rparr>"

subsection \<open>handleLogin\<close>

text \<open>\<open>handleLogin\<close> up to its \<open>await\<close>, with the form's two fields.\<close>

definition handleLogin :: "string \<Rightarrow> string \<Rightarrow> auth_state \<Rightarrow> auth_state" where
  "handleLogin email password s =
     s\<lparr>auth_isLoading := True,
       auth_calls := auth_calls s @
         [authAPI_login (JObj [(''email'', JStr email), (''password'', JStr password)])]\<rparr>"

text \<open>
  The \<open>...user\<close> of \<open>const { token, ...user } = response\<close>: the own enumerable
  properties but \<open>token\<close>. A string and an array have their indices as properties.
\<close>

definition indexed :: "jsval list \<Rightarrow> (string \<times> jsval) list" where
  "indexed xs = zip (map decimal [0..<length xs]) xs"

fun rest_without :: "string \<Rightarrow> jsval \<Rightarrow> jsval" where
  "rest_without k (JObj kvs) = JObj (filter (\<lambda>kv. fst kv \<noteq> k) kvs)"
| "rest_without k (JArr xs) = JObj (indexed xs)"
| "rest_without k (JStr cs) = JObj (indexed (map (\<lambda>c. JStr [c]) cs))"
| "rest_without k v = JObj []"

text \<open>
  The \<open>try\<close> block from the point where \<open>authAPI.login\<close> has resolved with \<open>resp\<close>:
  \<open>Inl\<close> what it throws. Destructuring \<open>null\<close> throws a TypeError.
\<close>

definition handleLogin_try :: "jsval \<Rightarrow> auth_state \<Rightarrow> js_error + auth_state" where
  "handleLogin_try resp s =
     (if nullish resp then Inl (TypeError destructure_null_text)
      else
        (let token = field resp ''token''; user = rest_without ''token'' resp
         in if \<not> truthy token then Inl (Error ''No authentication token received'')
            else Inr ((auth_toast \<lparr>title = ''Welcome back!'',
                         description = JStr ''You have successfully signed in.'',
                         destructive = False\<rparr> s)
                      \<lparr>auth_token := setToken token (auth_token s),
                       loginSuccess := loginSuccess s @ [(user, token)],
                       auth_closed := Suc (auth_closed s)\<rparr>)))"

text \<open>
  \<open>error.details?.includes(p)\<close>: undefined on \<open>null\<close> and \<open>undefined\<close>, the substring
  test on a string, membership on an array; any other value has no such method, and
  the call throws a TypeError.
\<close>

fun details_includes :: "jsval \<Rightarrow> string \<Rightarrow> js_error + bool" where
  "details_includes JUndefined p = Inr False"
| "details_includes JNull p = Inr False"
| "details_includes (JStr s) p = Inr (includes_str s p)"
| "details_includes (JArr xs) p = Inr (JStr p \<in> set xs)"
| "details_includes v p = Inl (TypeError not_a_function_text)"

definition route_to_otp :: "string \<Rightarrow> auth_state \<Rightarrow> auth_state" where
  "route_to_otp email s = s\<lparr>pendingVerificationEmail := email, isOTPModalOpen := True\<rparr>"

text \<open>The \<open>catch\<close> block; an error thrown inside it leaves the handler.\<close>

definition handleLogin_catch :: "string \<Rightarrow> js_error \<Rightarrow> auth_state \<Rightarrow> auth_state" where
  "handleLogin_catch email e s =
     (let failed = auth_toast \<lparr>title = ''Sign in failed'',
            description = JStr (if err_message e \<noteq> [] then err_message e
                                else ''Please check your credentials and try again.''),
            destructive = True\<rparr> s
      in if includes_str (err_message e) ''Email not verified''
         then (route_to_otp email s)\<lparr>auth_isLoading := False\<rparr>
         else (case details_includes (err_details e) ''not verified'' of
                 Inl te \<Rightarrow> s\<lparr>unhandled := unhandled s @ [te]\<rparr>
               | Inr True \<Rightarrow> (route_to_otp email s)\<lparr>auth_isLoading := False\<rparr>
               | Inr False \<Rightarrow> failed))"

text \<open>\<open>handleLogin\<close> from the point where \<open>authAPI.login\<close> has settled.\<close>

definition handleLogin_done :: "string \<Rightarrow> js_error + jsval \<Rightarrow> auth_state \<Rightarrow> auth_state" where
  "handleLogin_done email outcome s =
     (case outcome of
        Inl e \<Rightarrow> handleLogin_catch email e s
      | Inr resp \<Rightarrow>
          (case handleLogin_try resp s of
             Inl e \<Rightarrow> handleLogin_catch email e s
           | Inr s' \<Rightarrow> s'))
     \<lparr>auth_isLoading := False\<rparr>"

subsection \<open>handleRegister\<close>

record register_form =
  form_email :: string
  form_password :: string
  form_first_name :: string
  form_last_name :: string
  form_phone :: string
  form_role :: string

text \<open>\<open>userData\<close>; an empty phone field becomes \<open>undefined\<close>.\<close>

definition userData :: "register_form \<Rightarrow> jsval" where
  "userData f = JObj
     [(''email'', JStr (form_email f)),
      (''password'', JStr (form_password f)),
      (''first_name'', JStr (form_first_name f)),
      (''last_name'', JStr (form_last_name f)),
      (''phone'', js_or (JStr (form_phone f)) JUndefined),
      (''role'', JStr (form_role f))]"

definition handleRegister :: "register_form \<Rightarrow> auth_state \<Rightarrow> auth_state" where
  "handleRegister f s =
     s\<lparr>auth_isLoading := True, auth_calls := auth_calls s @ [authAPI_register (userData f)]\<rparr>"

definition handleRegister_try :: "register_form \<Rightarrow> jsval \<Rightarrow> auth_state \<Rightarrow> js_error + auth_state" where
  "handleRegister_try f resp s =
     (if truthy (opt_field resp ''needsVerification'') then
        Inr (auth_toast \<lparr>title = ''Account created!'',
               description = JStr ''Please check your email and enter the verification code.'',
               destructive = False\<rparr>
             (route_to_otp (form_email f) s))
      else if truthy (opt_field resp ''token'') then
        Inr ((auth_toast \<lparr>title = ''Welcome to CareerBridge!'',
                description = JStr ''Your account has been created successfully.'',
                destructive = False\<rparr> s)
             \<lparr>auth_token := setToken (field resp ''token'') (auth_token s),
              loginSuccess := loginSuccess s @ [(field resp ''user'', field resp ''token'')],
              auth_closed := Suc (auth_closed s)\<rparr>)
      else Inl (Error ''Unexpected response from server''))"

text \<open>
  The text of truthy \<open>details\<close>: \<open>Object.values(details).flat().join(' ')\<close> when
  \<open>typeof details\<close> is \<open>object\<close>, which for a truthy value means an array or an object,
  and \<open>String(details)\<close> otherwise.
\<close>

fun object_values :: "jsval \<Rightarrow> jsval list" where
  "object_values (JObj kvs) = map snd kvs"
| "object_values (JArr xs) = xs"
| "object_values v = []"

fun flat1 :: "jsval \<Rightarrow> jsval list" where
  "flat1 (JArr xs) = xs"
| "flat1 v = [v]"

fun is_object :: "jsval \<Rightarrow> bool" where
  "is_object (JObj kvs) = True"
| "is_object (JArr xs) = True"
| "is_object v = False"

definition details_text :: "jsval \<Rightarrow> string" where
  "details_text d =
     (if is_object d
      then join '' '' (map (\<lambda>x. if nullish x then [] else js_to_string x)
                          (concat (map flat1 (object_values d))))
      else js_to_string d)"

text \<open>
  The message the \<open>catch\<close> block derives. No error the client throws has a \<open>response\<close>
  property, so the two tests of \<open>error.response?.data\<close> fail.
\<close>

definition register_error_message :: "js_error \<Rightarrow> string" where
  "register_error_message e =
     (if includes_str (err_message e) ''already exists'' then
        ''An account with this email already exists. Please sign in or use a different email.''
      else if includes_str (err_message e) ''network'' \<or> err_name e = ''TypeError'' then
        ''Unable to connect to the server. Please check your internet connection and ensure the backend is running.''
      else if truthy (err_details e) then
        (if details_text (err_details e) \<noteq> [] then details_text (err_details e)
         else err_message e)
      else if err_message e \<noteq> [] then err_message e
      else ''Please check your information and try again.'')"

definition handleRegister_catch :: "js_error \<Rightarrow> auth_state \<Rightarrow> auth_state" where
  "handleRegister_catch e s =
     auth_toast \<lparr>title = ''Registration failed'',
       description = JStr (register_error_message e), destructive = True\<rparr> s"

text \<open>\<open>handleRegister\<close> from the point where \<open>authAPI.register\<close> has settled.\<close>

definition handleRegister_done :: "register_form \<Rightarrow> js_error + jsval \<Rightarrow> auth_state \<Rightarrow> auth_state" where
  "handleRegister_done f outcome s =
     (case outcome of
        Inl e \<Rightarrow> handleRegister_catch e s
      | Inr resp \<Rightarrow>
          (case handleRegister_try f resp s of
             Inl e \<Rightarrow> handleRegister_catch e s
           | Inr s' \<Rightarrow> s'))
     \<lparr>auth_isLoading := False\<rparr>"

definition handleVerificationSuccess :: "auth_state \<Rightarrow> auth_state" where
  "handleVerificationSuccess s =
     auth_toast \<lparr>title = ''Email verified!'',
       description = JStr ''You can now sign in to your account.'', destructive = False\<rparr>
     (s\<lparr>isOTPModalOpen := False, activeTab := ''login''\<rparr>)"

definition handleForgotPassword :: "auth_state \<Rightarrow> auth_state" where
  "handleForgotPassword s = s\<lparr>auth_closed := Suc (auth_closed s), isForgotPasswordOpen := True\<rparr>"

section \<open>The recovery modal (ForgotPasswordModal.tsx)\<close>

record fp_state =
  fp_email :: string
  fp_isLoading :: bool
  isSuccess :: bool
  fp_calls :: "api_call list"
  fp_toasts :: "toast list"
  fp_closed :: nat

definition fp_init :: fp_state where
  "fp_init = \<lparr>fp_email = [], fp_isLoading = False, isSuccess = False,
              fp_calls = [], fp_toasts = [], fp_closed = 0\<rparr>"

definition setEmail :: "string \<Rightarrow> fp_state \<Rightarrow> fp_state" where
  "setEmail v s = s\<lparr>fp_email := v\<rparr>"

text \<open>\<open>handleSubmit\<close> up to its \<open>await\<close>, and from the point where the request has settled.\<close>

definition handleSubmit :: "fp_state \<Rightarrow> fp_state" where
  "handleSubmit s =
     s\<lparr>fp_isLoading := True, fp_calls := fp_calls s @ [authAPI_forgotPassword (fp_email s)]\<rparr>"

definition handleSubmit_done :: "js_error + jsval \<Rightarrow> fp_state \<Rightarrow> fp_state" where
  "handleSubmit_done outcome s =
     (case outcome of
        Inr resp \<Rightarrow>
          s\<lparr>isSuccess := True,
            fp_toasts := fp_toasts s @ [\<lparr>title = ''Reset link sent'',
              description = JStr ''Check your email for password reset instructions.'',
              destructive = False\<rparr>]\<rparr>
      | Inl e \<Rightarrow>
          s\<lparr>fp_toasts := fp_toasts s @ [\<lparr>title = ''Failed to send reset link'',
              description = JStr (if err_message e \<noteq> [] then err_message e
                                  else ''Please check your email address and try again.''),
              destructive = True\<rparr>]\<rparr>)
     \<lparr>fp_isLoading := False\<rparr>"

definition handleClose :: "fp_state \<Rightarrow> fp_state" where
  "handleClose s = s\<lparr>fp_email := [], isSuccess := False, fp_closed := Suc (fp_closed s)\<rparr>"

text \<open>The button \<open>Send to different email\<close>: \<open>() => setIsSuccess(false)\<close>.\<close>

definition send_to_different_email :: "fp_state \<Rightarrow> fp_state" where
  "send_to_different_email s = s\<lparr>isSuccess := False\<rparr>"

text \<open>
  The state the modal shows: the confirmation when \<open>isSuccess\<close>, else the form, with
  its button reading \<open>Sending...\<close> while \<open>isLoading\<close>.
\<close>

datatype fp_phase = Entering | Submitting | Sent

definition phase :: "fp_state \<Rightarrow> fp_phase" where
  "phase s = (if isSuccess s then Sent else if fp_isLoading s then Submitting else Entering)"

section \<open>Auxiliary definitions for the properties\<close>

text \<open>
  The intervals of a modal and its \<open>countdownRef\<close> agree: no interval is running, or
  exactly the one that the ref holds.
\<close>

definition timer_inv :: "otp_state \<Rightarrow> bool" where
  "timer_inv s = (timers s = [] \<or> (\<exists>t. timers s = [t] \<and> countdownRef s = Some t))"

text \<open>
  The error of a rejected request as the specification words it, to compare with what
  \<open>apiRequest\<close> throws: the message is the body's \<open>error\<close> field if present, else the
  body if it is text, else \<open>Request failed\<close>; the details are the body's \<open>details\<close>
  field if present, else the whole body.
\<close>

fun has_field :: "jsval \<Rightarrow> string \<Rightarrow> bool" where
  "has_field (JObj kvs) k = (map_of kvs k \<noteq> None)"
| "has_field v k = False"

definition spec_error :: "nat \<Rightarrow> jsval \<Rightarrow> js_error" where
  "spec_error st body =
     APIError
       (if has_field body ''error'' then js_to_string (field body ''error'')
        else if is_string body then js_to_string body
        else ''Request failed'')
       st
       (if has_field body ''details'' then field body ''details'' else body)"

text \<open>The recovery modal after a request for \<open>a@b.com\<close> has succeeded.\<close>

definition sent_state :: fp_state where
  "sent_state = handleSubmit_done (Inr (JObj [(''message'', JStr ''sent'')]))
                  (handleSubmit (setEmail ''a@b.com'' fp_init))"

text \<open>A registration form, and a response that carries both markers.\<close>

definition form0 :: register_form where
  "form0 = \<lparr>form_email = ''new@b.com'', form_password = ''pw'', form_first_name = ''A'',
            form_last_name = ''B'', form_phone = [], form_role = ''job_seeker''\<rparr>"

definition both_markers :: jsval where
  "both_markers = JObj [(''needsVerification'', JBool True), (''token'', JStr ''t1'')]"

section \<open>Properties of the transport client\<close>

lemma error_message_arg_eq:
  "\<not> nullish data \<Longrightarrow> error_message_arg data =
     (if truthy (field data ''error'') then field data ''error''
      else if is_string data then data else JStr ''Request failed'')"
  by (cases data) (simp_all add: error_message_arg_def js_or_def js_and_def)

text \<open>
  C1, as amended. A response whose body could be read and is not \<open>null\<close>: with a status
  from 200 to 299 \<open>apiRequest\<close> resolves with the body; with any other status it throws
  an \<open>APIError\<close> that carries the status, whose message is the body's \<open>error\<close> field when
  that is truthy, else the body when it is a string, else \<open>Request failed\<close>, and whose
  details are the body's \<open>details\<close> field when that is truthy, else the whole body.
\<close>

theorem apiRequest_classifies:
  "read_body r = Inr data \<longrightarrow>
     (200 \<le> resp_status r \<and> resp_status r \<le> 299 \<longrightarrow> apiRequest (Responded r) = Inr data)
   \<and> (\<not> (200 \<le> resp_status r \<and> resp_status r \<le> 299) \<and> data \<noteq> JNull \<and> data \<noteq> JUndefined \<longrightarrow>
        apiRequest (Responded r) =
          Inl (APIError
                 (js_to_string
                    (if truthy (field data ''error'') then field data ''error''
                     else if is_string data then data else JStr ''Request failed''))
                 (resp_status r)
                 (if truthy (field data ''details'') then field data ''details'' else data)))"
proof (intro impI conjI)
  assume b: "read_body r = Inr data" and ok: "200 \<le> resp_status r \<and> resp_status r \<le> 299"
  then show "apiRequest (Responded r) = Inr data"
    by (simp add: apiRequest_def apiRequest_try_def resp_ok_def)
next
  assume b: "read_body r = Inr data"
    and h: "\<not> (200 \<le> resp_status r \<and> resp_status r \<le> 299) \<and> data \<noteq> JNull \<and> data \<noteq> JUndefined"
  then have nn: "\<not> nullish data" by (cases data) simp_all
  have nok: "\<not> resp_ok r" using h by (simp add: resp_ok_def)
  show "apiRequest (Responded r) =
          Inl (APIError
                 (js_to_string
                    (if truthy (field data ''error'') then field data ''error''
                     else if is_string data then data else JStr ''Request failed''))
                 (resp_status r)
                 (if truthy (field data ''details'') then field data ''details'' else data))"
    using b nn nok
    by (simp add: apiRequest_def apiRequest_try_def error_details_arg_def
        error_message_arg_eq js_or_def)
qed

theorem apiRequest_classifies_witness:
  "read_body \<lparr>resp_status = 403, resp_json = Inr (JObj [(''error'', JStr ''Email not verified'')]),
              resp_text = Inl ''body stream already read''\<rparr>
     = Inr (JObj [(''error'', JStr ''Email not verified'')])
   \<and> \<not> (200 \<le> (403::nat) \<and> (403::nat) \<le> 299)
   \<and> JObj [(''error'', JStr ''Email not verified'')] \<noteq> JNull
   \<and> apiRequest (Responded \<lparr>resp_status = 403,
        resp_json = Inr (JObj [(''error'', JStr ''Email not verified'')]),
        resp_text = Inl ''body stream already read''\<rparr>)
     = Inl (APIError ''Email not verified'' 403 (JObj [(''error'', JStr ''Email not verified'')]))
   \<and> read_body \<lparr>resp_status = 200, resp_json = Inr (JObj [(''token'', JStr ''t1'')]),
                resp_text = Inl ''body stream already read''\<rparr>
     = Inr (JObj [(''token'', JStr ''t1'')])
   \<and> 200 \<le> (200::nat) \<and> (200::nat) \<le> 299
   \<and> apiRequest (Responded \<lparr>resp_status = 200, resp_json = Inr (JObj [(''token'', JStr ''t1'')]),
        resp_text = Inl ''body stream already read''\<rparr>) = Inr (JObj [(''token'', JStr ''t1'')])"
proof -
  let ?d = "JObj [(''error'', JStr ''Email not verified'')]"
  let ?r = "\<lparr>resp_status = 403, resp_json = Inr ?d, resp_text = Inl ''body stream already read''\<rparr>"
  let ?d2 = "JObj [(''token'', JStr ''t1'')]"
  let ?r2 = "\<lparr>resp_status = 200, resp_json = Inr ?d2, resp_text = Inl ''body stream already read''\<rparr>"
  have b: "read_body ?r = Inr ?d" by (simp add: read_body_def)
  have b2: "read_body ?r2 = Inr ?d2" by (simp add: read_body_def)
  show ?thesis
    using apiRequest_classifies [of ?r ?d] apiRequest_classifies [of ?r2 ?d2] b b2
    by simp
qed

text \<open>
  C1 as stated fails: a body \<open>{"error": ""}\<close> has the \<open>error\<close> field, and the message is
  \<open>Request failed\<close>, not the field.
\<close>

theorem error_field_counterexample:
  "has_field (JObj [(''error'', JStr [])]) ''error''
   \<and> apiRequest (Responded \<lparr>resp_status = 400, resp_json = Inr (JObj [(''error'', JStr [])]),
        resp_text = Inl ''body stream already read''\<rparr>)
       = Inl (APIError ''Request failed'' 400 (JObj [(''error'', JStr [])]))
   \<and> apiRequest (Responded \<lparr>resp_status = 400, resp_json = Inr (JObj [(''error'', JStr [])]),
        resp_text = Inl ''body stream already read''\<rparr>)
       \<noteq> Inl (spec_error 400 (JObj [(''error'', JStr [])]))"
  by (simp add: apiRequest_def apiRequest_try_def read_body_def resp_ok_def error_details_arg_def
      error_message_arg_def js_or_def js_and_def spec_error_def)

text \<open>
  A \<open>null\<close> body with a status outside 200 to 299: reading \<open>data.details\<close> throws, and the
  error that leaves \<open>apiRequest\<close> is the network error with status 0.
\<close>

lemma null_body_loses_status:
  "apiRequest (Responded \<lparr>resp_status = 500, resp_json = Inr JNull, resp_text = Inl ''body stream already read''\<rparr>)
     = Inl (APIError ''Network error'' 0 (JStr read_null_text))"
  by (simp add: apiRequest_def apiRequest_try_def read_body_def resp_ok_def error_details_arg_def)

text \<open>
  When neither \<open>json()\<close> nor \<open>text()\<close> delivers the body, the error is the network
  error, whatever the status.
\<close>

lemma unreadable_body:
  "resp_json r = Inl e \<Longrightarrow> resp_text r = Inl e' \<Longrightarrow>
     apiRequest (Responded r) = Inl (APIError ''Network error'' 0 (JStr e'))"
  by (simp add: apiRequest_def apiRequest_try_def read_body_def)

text \<open>
  C7. A caller's headers: the claim has them merged with \<open>Content-Type\<close> and \<open>Accept\<close>.
  In the code the final \<open>...options\<close> puts the caller's \<open>headers\<close> object in place of the
  merged one, and the request goes out with neither of the two.
\<close>

theorem caller_headers_drop_defaults:
  "cfg_headers (apiRequest_config (Some ''t0'')
       (no_options\<lparr>opt_headers := Some [''X-Request-Id'' \<mapsto> ''1'']\<rparr>))
     = [''X-Request-Id'' \<mapsto> ''1'', ''Authorization'' \<mapsto> ''Bearer t0'']
   \<and> cfg_headers (apiRequest_config (Some ''t0'')
       (no_options\<lparr>opt_headers := Some [''X-Request-Id'' \<mapsto> ''1'']\<rparr>)) ''Content-Type'' = None
   \<and> cfg_headers (apiRequest_config (Some ''t0'')
       (no_options\<lparr>opt_headers := Some [''X-Request-Id'' \<mapsto> ''1'']\<rparr>)) ''Accept'' = None"
  by (simp add: apiRequest_config_def config_literal_def no_options_def Let_def)

text \<open>
  Without caller headers both defaults are there, and the bearer header exactly when a
  token is stored.
\<close>

lemma default_headers_without_caller_headers:
  "opt_headers opts = None \<Longrightarrow>
     cfg_headers (apiRequest_config st opts) ''Content-Type'' = Some ''application/json''
   \<and> cfg_headers (apiRequest_config st opts) ''Accept'' = Some ''application/json''
   \<and> cfg_headers (apiRequest_config st opts) ''Authorization'' =
       (case st of
          None \<Rightarrow> None
        | Some token \<Rightarrow> if token = [] then None else Some (''Bearer '' @ token))
   \<and> (isAuthenticated st \<longleftrightarrow> cfg_headers (apiRequest_config st opts) ''Authorization'' \<noteq> None)"
  by (simp add: apiRequest_config_def config_literal_def headers_entry_def spread_headers_def
      default_headers_def isAuthenticated_def Let_def split: option.splits)

text \<open>
  C9. The request of \<open>getProfile\<close> goes to \<open>/users/me\<close> with the default method of
  \<open>apiRequest\<close>, which is \<open>POST\<close>, not \<open>GET\<close>; \<open>updateProfile\<close> uses \<open>PUT\<close>.
\<close>

theorem getProfile_method:
  "cfg_method (req_config (send base st userAPI_getProfile)) = ''POST''
   \<and> req_url (send base st userAPI_getProfile) = base @ ''/users/me''
   \<and> cfg_method (req_config (send base st (userAPI_updateProfile d))) = ''PUT''
   \<and> req_url (send base st (userAPI_updateProfile d)) = base @ ''/users/me''"
  by (simp add: send_def userAPI_getProfile_def userAPI_updateProfile_def apiRequest_request_def
      apiRequest_config_def config_literal_def no_options_def Let_def split: option.splits)

section \<open>Properties of the recovery modal\<close>

lemma sent_state_eval:
  "phase sent_state = Sent \<and> fp_email sent_state = ''a@b.com'' \<and> \<not> fp_isLoading sent_state"
  by (simp add: sent_state_def handleSubmit_done_def handleSubmit_def setEmail_def fp_init_def
      phase_def)

text \<open>
  C8, as amended. \<open>Send to different email\<close> clears the success flag and leaves the email
  field as it is; closing clears the email field and the success flag. With no request
  in flight the modal then shows the entry form.
\<close>

theorem recovery_reset:
  "isSuccess (send_to_different_email s) = False
   \<and> fp_email (send_to_different_email s) = fp_email s
   \<and> (\<not> fp_isLoading s \<longrightarrow> phase (send_to_different_email s) = Entering)
   \<and> fp_email (handleClose s) = []
   \<and> isSuccess (handleClose s) = False
   \<and> (\<not> fp_isLoading s \<longrightarrow> phase (handleClose s) = Entering)"
  by (simp add: send_to_different_email_def handleClose_def phase_def)

theorem recovery_reset_witness:
  "\<not> fp_isLoading sent_state
   \<and> phase sent_state = Sent
   \<and> phase (send_to_different_email sent_state) = Entering
   \<and> fp_email (send_to_different_email sent_state) = ''a@b.com''
   \<and> phase (handleClose sent_state) = Entering
   \<and> fp_email (handleClose sent_state) = []"
  using recovery_reset [of sent_state] sent_state_eval by simp

text \<open>
  C8 as stated fails: from the confirmation for \<open>a@b.com\<close>, \<open>Send to different email\<close>
  shows the entry form with \<open>a@b.com\<close> still in the field.
\<close>

theorem different_email_counterexample:
  "phase sent_state = Sent
   \<and> \<not> (phase (send_to_different_email sent_state) = Entering
        \<and> fp_email (send_to_different_email sent_state) = [])"
  by (simp add: sent_state_def handleSubmit_done_def handleSubmit_def setEmail_def fp_init_def
      phase_def send_to_different_email_def)

text \<open>
  A close while the request is in flight does not stop it: when it succeeds, the modal
  shows the confirmation, with the email field empty.
\<close>

lemma close_while_submitting:
  "phase (handleSubmit_done (Inr resp) (handleClose (handleSubmit s))) = Sent
   \<and> fp_email (handleSubmit_done (Inr resp) (handleClose (handleSubmit s))) = []"
  by (simp add: handleSubmit_done_def handleClose_def handleSubmit_def phase_def)

section \<open>Properties of the verification modal\<close>

subsection \<open>At most one interval\<close>

lemma timer_inv_setters [simp]:
  "timer_inv (setOtp v s) = timer_inv s"
  "timer_inv (setIsLoading b s) = timer_inv s"
  "timer_inv (setIsResending b s) = timer_inv s"
  "timer_inv (show_toast t s) = timer_inv s"
  "timer_inv (s\<lparr>calls := c\<rparr>) = timer_inv s"
  "timer_inv (s\<lparr>verified := n\<rparr>) = timer_inv s"
  "timer_inv (s\<lparr>closed := n\<rparr>) = timer_inv s"
  by (simp_all add: timer_inv_def setOtp_def setIsLoading_def setIsResending_def show_toast_def)

lemma timer_inv_handleVerify: "timer_inv s \<Longrightarrow> timer_inv (handleVerify r email s)"
  by (simp add: handleVerify_def)

lemma timer_inv_handleVerify_done: "timer_inv s \<Longrightarrow> timer_inv (handleVerify_done outcome s)"
  by (simp add: handleVerify_done_def handleVerify_catch_def split: sum.splits)

lemma timer_inv_handleOtpChange: "timer_inv s \<Longrightarrow> timer_inv (handleOtpChange email v s)"
  by (simp add: handleOtpChange_def Let_def timer_inv_handleVerify)

lemma timer_inv_handlePaste: "timer_inv s \<Longrightarrow> timer_inv (handlePaste email v s)"
  by (simp add: handlePaste_def Let_def timer_inv_handleVerify)

lemma timer_inv_handleResendOTP: "timer_inv s \<Longrightarrow> timer_inv (handleResendOTP email s)"
  by (simp add: handleResendOTP_def)

lemma timers_clear_countdown: "timer_inv s \<Longrightarrow> timers (clear_countdown s) = []"
  by (auto simp: timer_inv_def clear_countdown_def clearInterval_def split: option.splits)

lemma rearm_timers:
  "timer_inv s \<Longrightarrow> timers (start_countdown (clear_countdown s)) = [nextTimer s]
     \<and> countdownRef (start_countdown (clear_countdown s)) = Some (nextTimer s)"
  by (auto simp: timer_inv_def start_countdown_def clear_countdown_def clearInterval_def split: option.splits)

lemma timer_inv_handleResendOTP_done: "timer_inv s \<Longrightarrow> timer_inv (handleResendOTP_done outcome s)"
proof (cases outcome)
  case (Inl e)
  assume "timer_inv s"
  with Inl show ?thesis by (simp add: handleResendOTP_done_def handleResendOTP_catch_def)
next
  case (Inr resp)
  assume inv: "timer_inv s"
  show ?thesis
  proof (cases "response_accepted resp")
    case True
    let ?s1 = "show_toast \<lparr>title = ''OTP resent'',
                   description = js_or (field resp ''message'')
                     (JStr ''A new verification code has been sent to your email.''),
                   destructive = False\<rparr> s"
    from inv have "timer_inv ?s1" by simp
    from rearm_timers [OF this] have "timer_inv (start_countdown (clear_countdown ?s1))"
      by (simp add: timer_inv_def)
    with Inr True show ?thesis by (simp add: handleResendOTP_done_def)
  next
    case False
    with Inr inv show ?thesis by (simp add: handleResendOTP_done_def handleResendOTP_catch_def)
  qed
qed

lemma timer_inv_tick: "timer_inv s \<Longrightarrow> timer_inv (tick t s)"
  by (auto simp: timer_inv_def tick_def clearInterval_def split: option.splits)

lemma timer_inv_unmount: "timer_inv s \<Longrightarrow> timer_inv (unmount s)"
  by (auto simp: timer_inv_def unmount_def clear_countdown_def clearInterval_def split: option.splits)

lemma timer_inv_step: "timer_inv s \<Longrightarrow> timer_inv (otp_step email s ev)"
  by (cases ev)
     (simp_all add: timer_inv_handleOtpChange timer_inv_handlePaste timer_inv_handleVerify
        timer_inv_handleVerify_done timer_inv_handleResendOTP timer_inv_handleResendOTP_done
        timer_inv_tick timer_inv_unmount)

lemma timer_inv_foldl: "timer_inv s \<Longrightarrow> timer_inv (foldl (otp_step email) s evs)"
  by (induction evs arbitrary: s) (simp_all add: timer_inv_step)

lemma timer_inv_run: "timer_inv (otp_run email evs)"
  unfolding otp_run_def by (rule timer_inv_foldl) (simp add: timer_inv_def otp_init_def)

lemma timer_inv_length: "timer_inv s \<Longrightarrow> length (timers s) \<le> 1"
  by (auto simp: timer_inv_def)

lemma tick_running:
  "mounted s \<Longrightarrow> timers s = [t] \<Longrightarrow> countdownRef s = Some t \<Longrightarrow> 1 < timeLeft s \<Longrightarrow>
     tick t s = s\<lparr>timeLeft := timeLeft s - 1\<rparr>"
  by (simp add: tick_def)

lemma tick_last:
  "mounted s \<Longrightarrow> timers s = [t] \<Longrightarrow> countdownRef s = Some t \<Longrightarrow> timeLeft s \<le> 1 \<Longrightarrow>
     tick t s = s\<lparr>timers := [], countdownRef := None, timeLeft := 0\<rparr>"
  by (simp add: tick_def clearInterval_def)

lemma countdown_ticks:
  assumes "mounted s" "timers s = [t]" "countdownRef s = Some t" "timeLeft s = int n" "0 < n"
  shows "k < n \<Longrightarrow> (tick t ^^ k) s = s\<lparr>timeLeft := int n - int k\<rparr>"
proof (induction k)
  case 0
  with assms show ?case by simp
next
  case (Suc k)
  then have eq: "(tick t ^^ k) s = s\<lparr>timeLeft := int n - int k\<rparr>" by simp
  have "tick t (s\<lparr>timeLeft := int n - int k\<rparr>) = s\<lparr>timeLeft := int n - int k - 1\<rparr>"
    using assms Suc.prems by (simp add: tick_def)
  with eq show ?case by (simp add: algebra_simps)
qed

lemma countdown_end:
  assumes "mounted s" "timers s = [t]" "countdownRef s = Some t" "timeLeft s = int n" "0 < n"
  shows "(tick t ^^ n) s = s\<lparr>timers := [], countdownRef := None, timeLeft := 0\<rparr>"
proof -
  obtain m where n: "n = Suc m" using assms(5) by (cases n) auto
  have "(tick t ^^ m) s = s\<lparr>timeLeft := int n - int m\<rparr>"
    using countdown_ticks [OF assms, of m] n by simp
  then have "(tick t ^^ n) s = tick t (s\<lparr>timeLeft := 1\<rparr>)" using n by simp
  also have "\<dots> = s\<lparr>timers := [], countdownRef := None, timeLeft := 0\<rparr>"
    using assms by (simp add: tick_def clearInterval_def)
  finally show ?thesis .
qed


lemma resend_rearms:
  assumes inv: "timer_inv s" and m: "mounted s" and ok: "response_accepted resp"
  shows "timeLeft (handleResendOTP_done (Inr resp) s) = 60"
    and "timers (handleResendOTP_done (Inr resp) s) = [nextTimer s]"
    and "countdownRef (handleResendOTP_done (Inr resp) s) = Some (nextTimer s)"
    and "mounted (handleResendOTP_done (Inr resp) s)"
proof -
  let ?s1 = "show_toast \<lparr>title = ''OTP resent'',
               description = js_or (field resp ''message'')
                 (JStr ''A new verification code has been sent to your email.''),
               destructive = False\<rparr> s"
  have eq: "handleResendOTP_done (Inr resp) s = setIsResending False (start_countdown (clear_countdown ?s1))"
    using ok by (simp add: handleResendOTP_done_def)
  have inv1: "timer_inv ?s1" using inv by simp
  have n1: "nextTimer ?s1 = nextTimer s" and m1: "mounted ?s1"
    using m by (simp_all add: show_toast_def)
  have m2: "mounted (clear_countdown ?s1)"
    using m1 by (simp add: clear_countdown_def clearInterval_def split: option.splits)
  have m3: "mounted (start_countdown (clear_countdown ?s1))"
    using m2 by (simp add: start_countdown_def)
  from rearm_timers [OF inv1] n1
  have t: "timers (start_countdown (clear_countdown ?s1)) = [nextTimer s]"
    and c: "countdownRef (start_countdown (clear_countdown ?s1)) = Some (nextTimer s)"
    by simp_all
  have l: "timeLeft (start_countdown (clear_countdown ?s1)) = 60"
    using m2 by (simp add: start_countdown_def)
  show "timeLeft (handleResendOTP_done (Inr resp) s) = 60"
    using l m3 by (simp add: eq setIsResending_def)
  show "timers (handleResendOTP_done (Inr resp) s) = [nextTimer s]"
    using t m3 by (simp add: eq setIsResending_def)
  show "countdownRef (handleResendOTP_done (Inr resp) s) = Some (nextTimer s)"
    using c m3 by (simp add: eq setIsResending_def)
  show "mounted (handleResendOTP_done (Inr resp) s)"
    using m3 by (simp add: eq setIsResending_def)
qed

text \<open>
  C2. A resend requested while \<open>isResending\<close> or while \<open>timeLeft\<close> is positive changes
  nothing: no request is sent. When a resend succeeds in a mounted modal, whatever has
  happened to the modal before, \<open>timeLeft\<close> is 60 and the one interval running is the new
  one; each firing of it takes one off \<open>timeLeft\<close>, and the firing that reaches 0 stops
  it. At no time does a modal have more than one interval running.
\<close>

theorem resend_cooldown:
  "(isResending s \<or> 0 < timeLeft s \<longrightarrow> handleResendOTP email s = s)
   \<and> (mounted (otp_run email evs) \<and> response_accepted resp \<longrightarrow>
        (let s0 = otp_run email evs; t = nextTimer s0;
             s1 = handleResendOTP_done (Inr resp) s0
         in timeLeft s1 = 60 \<and> timers s1 = [t] \<and> countdownRef s1 = Some t
            \<and> (k \<le> 60 \<longrightarrow> timeLeft ((tick t ^^ k) s1) = 60 - int k)
            \<and> (k < 60 \<longrightarrow> timers ((tick t ^^ k) s1) = [t])
            \<and> timers ((tick t ^^ 60) s1) = []))
   \<and> length (timers (otp_run email evs)) \<le> 1"
proof (intro conjI impI)
  assume "isResending s \<or> 0 < timeLeft s"
  then show "handleResendOTP email s = s" by (auto simp: handleResendOTP_def)
next
  show "length (timers (otp_run email evs)) \<le> 1"
    by (rule timer_inv_length) (rule timer_inv_run)
next
  let ?s0 = "otp_run email evs"
  let ?t = "nextTimer ?s0"
  let ?s1 = "handleResendOTP_done (Inr resp) ?s0"
  assume "mounted ?s0 \<and> response_accepted resp"
  then have m: "mounted ?s0" and ok: "response_accepted resp" by simp_all
  note r = resend_rearms [OF timer_inv_run m ok]
  have l: "timeLeft ?s1 = int 60" using r(1) by simp
  note ticks = countdown_ticks [OF r(4) r(2) r(3) l]
  note fin = countdown_end [OF r(4) r(2) r(3) l]
  have a: "k \<le> 60 \<longrightarrow> timeLeft ((tick ?t ^^ k) ?s1) = 60 - int k"
  proof
    assume "k \<le> 60"
    then consider "k < 60" | "k = 60" by linarith
    then show "timeLeft ((tick ?t ^^ k) ?s1) = 60 - int k"
    proof cases
      case 1 then show ?thesis using ticks [of k] by simp
    next
      case 2 then show ?thesis using fin by simp
    qed
  qed
  have b: "k < 60 \<longrightarrow> timers ((tick ?t ^^ k) ?s1) = [?t]"
    using ticks [of k] r(2) by simp
  have c: "timers ((tick ?t ^^ 60) ?s1) = []" using fin by simp
  show "let s0 = otp_run email evs; t = nextTimer s0;
             s1 = handleResendOTP_done (Inr resp) s0
         in timeLeft s1 = 60 \<and> timers s1 = [t] \<and> countdownRef s1 = Some t
            \<and> (k \<le> 60 \<longrightarrow> timeLeft ((tick t ^^ k) s1) = 60 - int k)
            \<and> (k < 60 \<longrightarrow> timers ((tick t ^^ k) s1) = [t])
            \<and> timers ((tick t ^^ 60) s1) = []"
    using r(1,2,3) a b c by (simp add: Let_def)
qed

lemma run_click: "otp_run ''a@b.com'' [ClickResend] =
   otp_init\<lparr>isResending := True, calls := [authAPI_resendOtp ''a@b.com'']\<rparr>"
  by (simp add: otp_run_def handleResendOTP_def setIsResending_def otp_init_def)

theorem resend_cooldown_witness:
  "0 < timeLeft (otp_init\<lparr>timeLeft := 30\<rparr>)
   \<and> handleResendOTP ''a@b.com'' (otp_init\<lparr>timeLeft := 30\<rparr>) = otp_init\<lparr>timeLeft := 30\<rparr>
   \<and> mounted (otp_run ''a@b.com'' [ClickResend])
   \<and> response_accepted (JObj [(''success'', JBool True)])
   \<and> timeLeft (handleResendOTP_done (Inr (JObj [(''success'', JBool True)]))
        (otp_run ''a@b.com'' [ClickResend])) = 60
   \<and> (59::nat) < 60
   \<and> timeLeft ((tick 1 ^^ 59) (handleResendOTP_done (Inr (JObj [(''success'', JBool True)]))
        (otp_run ''a@b.com'' [ClickResend]))) = 1
   \<and> timers ((tick 1 ^^ 59) (handleResendOTP_done (Inr (JObj [(''success'', JBool True)]))
        (otp_run ''a@b.com'' [ClickResend]))) = [1]
   \<and> timers ((tick 1 ^^ 60) (handleResendOTP_done (Inr (JObj [(''success'', JBool True)]))
        (otp_run ''a@b.com'' [ClickResend]))) = []"
proof -
  have h1: "0 < timeLeft (otp_init\<lparr>timeLeft := 30\<rparr>)" by simp
  have h2: "mounted (otp_run ''a@b.com'' [ClickResend])"
    by (simp add: run_click) (simp add: otp_init_def)
  have h3: "response_accepted (JObj [(''success'', JBool True)])"
    by (simp add: response_accepted_def opt_field_def js_or_def)
  have n: "nextTimer (otp_run ''a@b.com'' [ClickResend]) = 1"
    by (simp add: run_click) (simp add: otp_init_def)
  show ?thesis
    using resend_cooldown [of "otp_init\<lparr>timeLeft := 30\<rparr>" "''a@b.com''" "[ClickResend]"
        "JObj [(''success'', JBool True)]" 59] h1 h2 h3 n
    by (simp add: Let_def)
qed

subsection \<open>Entering the code\<close>

lemma handleVerify_calls:
  "calls (handleVerify r email s) =
     (if otp_format_ok (otp r) then calls s @ [authAPI_verifyEmail email (otp r)] else calls s)"
  by (simp add: handleVerify_def show_toast_def)

lemma calls_setOtp [simp]: "calls (setOtp v s) = calls s"
  by (simp add: setOtp_def)

lemma auto_submit_needs_six_before:
  "length (otp s) \<noteq> 6 \<Longrightarrow>
     calls (handleOtpChange email v s) = calls s \<and> calls (handlePaste email v s) = calls s"
  by (simp add: handleOtpChange_def handlePaste_def handleVerify_calls otp_format_ok_def Let_def)

lemma auto_submit_sends_old_code:
  "otp_format_ok (otp s) \<Longrightarrow> length (digits6 v) = 6 \<Longrightarrow>
     calls (handleOtpChange email v s) = calls s @ [authAPI_verifyEmail email (otp s)]"
  by (simp add: handleOtpChange_def handleVerify_calls Let_def)

text \<open>
  C3. Typing \<open>123456\<close> digit by digit: the sixth change calls \<open>handleVerify\<close>, which
  tests the \<open>otp\<close> of its render, \<open>12345\<close>; the toast \<open>Invalid OTP\<close> is shown and no
  request is sent. The same holds for pasting six digits into the empty field. From
  there, with \<open>123456\<close> in the field, a change to \<open>123457\<close> sends a request, for
  \<open>123456\<close>.
\<close>

theorem auto_submit_reads_stale_code:
  "otp_run ''a@b.com'' [Change ''1'', Change ''12'', Change ''123'', Change ''1234'',
                        Change ''12345'', Change ''123456'']
     = otp_init\<lparr>otp := ''123456'', toasts := [invalid_otp_toast]\<rparr>
   \<and> otp_run ''a@b.com'' [Paste ''123456'']
     = otp_init\<lparr>otp := ''123456'', toasts := [invalid_otp_toast]\<rparr>
   \<and> otp_step ''a@b.com'' (otp_init\<lparr>otp := ''123456'', toasts := [invalid_otp_toast]\<rparr>)
        (Change ''123457'')
     = otp_init\<lparr>otp := ''123457'', isLoading := True, toasts := [invalid_otp_toast],
                calls := [authAPI_verifyEmail ''a@b.com'' ''123456'']\<rparr>"
  by (simp add: otp_run_def handleOtpChange_def handlePaste_def handleVerify_def digits6_def
      is_digit_def otp_format_ok_def setOtp_def setIsLoading_def show_toast_def otp_init_def
      Let_def)

lemma otp_handleVerify [simp]: "otp (handleVerify r email s) = otp s"
  by (simp add: handleVerify_def show_toast_def setIsLoading_def)

lemma toasts_setOtp [simp]: "toasts (setOtp v s) = toasts s"
  by (simp add: setOtp_def)

text \<open>
  C4, as amended. In a mounted modal a change of the field leaves as code the digits
  of the field's content, in order, cut to six; so does a paste that has a digit in it,
  and a paste without any digit leaves the code as it was. Input with fewer than six
  digits shows no toast. The code has digits only and at most six of them.
\<close>

theorem otp_accumulation:
  "(mounted s \<longrightarrow>
      otp (handleOtpChange email v s) = take 6 (filter is_digit v)
    \<and> otp (handlePaste email v s) =
        (if filter is_digit v = [] then otp s else take 6 (filter is_digit v)))
   \<and> (length (filter is_digit v) < 6 \<longrightarrow>
        toasts (handleOtpChange email v s) = toasts s
      \<and> toasts (handlePaste email v s) = toasts s)
   \<and> list_all is_digit (take 6 (filter is_digit v))
   \<and> length (take 6 (filter is_digit v)) \<le> 6"
proof (intro conjI impI)
  assume "mounted s"
  then show "otp (handleOtpChange email v s) = take 6 (filter is_digit v)"
    by (simp add: handleOtpChange_def digits6_def setOtp_def Let_def)
next
  assume m: "mounted s"
  show "otp (handlePaste email v s) =
        (if filter is_digit v = [] then otp s else take 6 (filter is_digit v))"
    using m by (simp add: handlePaste_def digits6_def setOtp_def Let_def)
next
  assume "length (filter is_digit v) < 6"
  then show "toasts (handleOtpChange email v s) = toasts s"
    by (simp add: handleOtpChange_def digits6_def Let_def)
next
  assume "length (filter is_digit v) < 6"
  then show "toasts (handlePaste email v s) = toasts s"
    by (simp add: handlePaste_def digits6_def Let_def)
next
  show "list_all is_digit (take 6 (filter is_digit v))"
    by (auto simp: list_all_iff dest: in_set_takeD)
next
  show "length (take 6 (filter is_digit v)) \<le> 6" by simp
qed

lemma digits_example: "filter is_digit ''12a3bc45'' = ''12345''"
  by (simp add: is_digit_def)

theorem otp_accumulation_witness:
  "mounted otp_init
   \<and> length (filter is_digit ''12a3bc45'') < 6
   \<and> otp (handleOtpChange ''a@b.com'' ''12a3bc45'' otp_init) = ''12345''
   \<and> otp (handlePaste ''a@b.com'' ''12a3bc45'' otp_init) = ''12345''
   \<and> toasts (handleOtpChange ''a@b.com'' ''12a3bc45'' otp_init) = toasts otp_init
   \<and> toasts (handlePaste ''a@b.com'' ''12a3bc45'' otp_init) = toasts otp_init"
proof -
  have m: "mounted otp_init" by (simp add: otp_init_def)
  show ?thesis
    using otp_accumulation [of otp_init "''a@b.com''" "''12a3bc45''"] m digits_example
    by simp
qed

text \<open>
  C4 as stated fails: pasting \<open>abc\<close> over the code \<open>123\<close> leaves \<open>123\<close>, which is not
  what the digits of \<open>abc\<close> are.
\<close>

theorem paste_without_digits_counterexample:
  "otp (handlePaste ''a@b.com'' ''abc'' (otp_init\<lparr>otp := ''123''\<rparr>)) = ''123''
   \<and> otp (handlePaste ''a@b.com'' ''abc'' (otp_init\<lparr>otp := ''123''\<rparr>))
       \<noteq> take 6 (filter is_digit ''abc'')"
  by (simp add: handlePaste_def digits6_def is_digit_def)

subsection \<open>Responses that are not accepted\<close>

text \<open>
  C10. A verify-email or resend-otp response with a status from 200 to 299 whose body
  has neither a truthy \<open>success\<close> nor a truthy \<open>message\<close>: the modal does not call
  \<open>onVerificationSuccess\<close> or \<open>onClose\<close>, starts no countdown, and shows the toast of
  the failure.
\<close>

theorem unaccepted_response_fails:
  "200 \<le> resp_status r \<and> resp_status r \<le> 299 \<and> read_body r = Inr body
   \<and> \<not> truthy (opt_field body ''success'') \<and> \<not> truthy (opt_field body ''message'') \<longrightarrow>
     verified (handleVerify_done (apiRequest (Responded r)) s) = verified s
   \<and> closed (handleVerify_done (apiRequest (Responded r)) s) = closed s
   \<and> toasts (handleVerify_done (apiRequest (Responded r)) s) =
       toasts s @ [\<lparr>title = ''Verification failed'',
                    description = JStr ''Verification failed. Please try again.'',
                    destructive = True\<rparr>]
   \<and> timeLeft (handleResendOTP_done (apiRequest (Responded r)) s) = timeLeft s
   \<and> timers (handleResendOTP_done (apiRequest (Responded r)) s) = timers s
   \<and> countdownRef (handleResendOTP_done (apiRequest (Responded r)) s) = countdownRef s
   \<and> toasts (handleResendOTP_done (apiRequest (Responded r)) s) =
       toasts s @ [\<lparr>title = ''Error'', description = JStr ''Failed to resend OTP'',
                    destructive = True\<rparr>]"
proof
  assume h: "200 \<le> resp_status r \<and> resp_status r \<le> 299 \<and> read_body r = Inr body
   \<and> \<not> truthy (opt_field body ''success'') \<and> \<not> truthy (opt_field body ''message'')"
  then have a: "apiRequest (Responded r) = Inr body"
    by (simp add: apiRequest_def apiRequest_try_def resp_ok_def)
  have n: "\<not> response_accepted body" using h by (simp add: response_accepted_def js_or_def)
  have v: "handleVerify_done (Inr body) s =
      setIsLoading False (handleVerify_catch (Error ''Verification failed. Please try again.'') s)"
    using n by (simp add: handleVerify_done_def)
  have w: "handleResendOTP_done (Inr body) s =
      setIsResending False (handleResendOTP_catch (Error ''Failed to resend OTP'') s)"
    using n by (simp add: handleResendOTP_done_def)
  show "verified (handleVerify_done (apiRequest (Responded r)) s) = verified s
   \<and> closed (handleVerify_done (apiRequest (Responded r)) s) = closed s
   \<and> toasts (handleVerify_done (apiRequest (Responded r)) s) =
       toasts s @ [\<lparr>title = ''Verification failed'',
                    description = JStr ''Verification failed. Please try again.'',
                    destructive = True\<rparr>]
   \<and> timeLeft (handleResendOTP_done (apiRequest (Responded r)) s) = timeLeft s
   \<and> timers (handleResendOTP_done (apiRequest (Responded r)) s) = timers s
   \<and> countdownRef (handleResendOTP_done (apiRequest (Responded r)) s) = countdownRef s
   \<and> toasts (handleResendOTP_done (apiRequest (Responded r)) s) =
       toasts s @ [\<lparr>title = ''Error'', description = JStr ''Failed to resend OTP'',
                    destructive = True\<rparr>]"
    unfolding a v w
    by (simp add: setIsLoading_def setIsResending_def handleVerify_catch_def
        handleResendOTP_catch_def show_toast_def caught_message_def)
qed

theorem unaccepted_response_fails_witness:
  "200 \<le> (200::nat) \<and> (200::nat) \<le> 299
   \<and> read_body \<lparr>resp_status = 200, resp_json = Inr (JObj [(''success'', JBool False)]),
                resp_text = Inl ''body stream already read''\<rparr>
       = Inr (JObj [(''success'', JBool False)])
   \<and> \<not> truthy (opt_field (JObj [(''success'', JBool False)]) ''success'')
   \<and> \<not> truthy (opt_field (JObj [(''success'', JBool False)]) ''message'')
   \<and> verified (handleVerify_done (apiRequest (Responded
        \<lparr>resp_status = 200, resp_json = Inr (JObj [(''success'', JBool False)]),
         resp_text = Inl ''body stream already read''\<rparr>)) otp_init) = 0
   \<and> closed (handleVerify_done (apiRequest (Responded
        \<lparr>resp_status = 200, resp_json = Inr (JObj [(''success'', JBool False)]),
         resp_text = Inl ''body stream already read''\<rparr>)) otp_init) = 0
   \<and> timeLeft (handleResendOTP_done (apiRequest (Responded
        \<lparr>resp_status = 200, resp_json = Inr (JObj [(''success'', JBool False)]),
         resp_text = Inl ''body stream already read''\<rparr>)) otp_init) = 0
   \<and> timers (handleResendOTP_done (apiRequest (Responded
        \<lparr>resp_status = 200, resp_json = Inr (JObj [(''success'', JBool False)]),
         resp_text = Inl ''body stream already read''\<rparr>)) otp_init) = []"
proof -
  let ?b = "JObj [(''success'', JBool False)]"
  let ?r = "\<lparr>resp_status = 200, resp_json = Inr ?b, resp_text = Inl ''body stream already read''\<rparr>"
  have b: "read_body ?r = Inr ?b" by (simp add: read_body_def)
  have f: "\<not> truthy (opt_field ?b ''success'')" "\<not> truthy (opt_field ?b ''message'')"
    by (simp_all add: opt_field_def)
  have i: "verified otp_init = 0" "closed otp_init = 0" "timeLeft otp_init = 0" "timers otp_init = []"
    by (simp_all add: otp_init_def)
  show ?thesis
    using unaccepted_response_fails [of ?r ?b otp_init] b f i by simp
qed

section \<open>Properties of the sign-in modal\<close>

text \<open>
  C5. A registration response with \<open>needsVerification: true\<close>, whatever else it holds:
  the stored token is what it was, \<open>onLoginSuccess\<close> and \<open>onClose\<close> are not called, the
  verification modal is open, and the pending email is the form's.
\<close>

theorem register_needs_verification:
  "field resp ''needsVerification'' = JBool True \<longrightarrow>
     auth_token (handleRegister_done f (Inr resp) s) = auth_token s
   \<and> loginSuccess (handleRegister_done f (Inr resp) s) = loginSuccess s
   \<and> auth_closed (handleRegister_done f (Inr resp) s) = auth_closed s
   \<and> isOTPModalOpen (handleRegister_done f (Inr resp) s)
   \<and> pendingVerificationEmail (handleRegister_done f (Inr resp) s) = form_email f"
proof
  assume h: "field resp ''needsVerification'' = JBool True"
  then have "\<not> nullish resp" by (cases resp) simp_all
  with h have "truthy (opt_field resp ''needsVerification'')" by (simp add: opt_field_def)
  then show "auth_token (handleRegister_done f (Inr resp) s) = auth_token s
   \<and> loginSuccess (handleRegister_done f (Inr resp) s) = loginSuccess s
   \<and> auth_closed (handleRegister_done f (Inr resp) s) = auth_closed s
   \<and> isOTPModalOpen (handleRegister_done f (Inr resp) s)
   \<and> pendingVerificationEmail (handleRegister_done f (Inr resp) s) = form_email f"
    by (simp add: handleRegister_done_def handleRegister_try_def auth_toast_def route_to_otp_def)
qed

theorem register_needs_verification_witness:
  "field both_markers ''needsVerification'' = JBool True
   \<and> field both_markers ''token'' = JStr ''t1''
   \<and> auth_token (handleRegister_done form0 (Inr both_markers) auth_init) = None
   \<and> loginSuccess (handleRegister_done form0 (Inr both_markers) auth_init) = []
   \<and> isOTPModalOpen (handleRegister_done form0 (Inr both_markers) auth_init)
   \<and> pendingVerificationEmail (handleRegister_done form0 (Inr both_markers) auth_init) = ''new@b.com''"
proof -
  have h: "field both_markers ''needsVerification'' = JBool True"
    and t: "field both_markers ''token'' = JStr ''t1''"
    by (simp_all add: both_markers_def)
  have i: "auth_token auth_init = None" "loginSuccess auth_init = []" "form_email form0 = ''new@b.com''"
    by (simp_all add: auth_init_def form0_def)
  show ?thesis
    using register_needs_verification [of both_markers form0 auth_init] h t i by simp
qed

lemma not_the_marker: "\<not> includes_str ''No authentication token received'' ''Email not verified''"
  by simp

text \<open>
  A login response that is not \<open>null\<close> and has no truthy \<open>token\<close>: the toast is
  \<open>No authentication token received\<close>, and nothing else changes.
\<close>

lemma login_without_token:
  assumes "\<not> nullish resp" "\<not> truthy (field resp ''token'')"
  shows "handleLogin_done email (Inr resp) s =
     s\<lparr>auth_toasts := auth_toasts s @ [\<lparr>title = ''Sign in failed'',
          description = JStr ''No authentication token received'', destructive = True\<rparr>],
       auth_isLoading := False\<rparr>"
proof -
  have t: "handleLogin_try resp s = Inl (Error ''No authentication token received'')"
    using assms by (simp add: handleLogin_try_def Let_def)
  have c: "handleLogin_catch email (Error ''No authentication token received'') s =
      auth_toast \<lparr>title = ''Sign in failed'',
          description = JStr ''No authentication token received'', destructive = True\<rparr> s"
    unfolding handleLogin_catch_def Let_def err_message.simps err_details.simps
    by (simp only: not_the_marker if_False details_includes.simps sum.case bool.case) simp
  show ?thesis by (simp add: handleLogin_done_def t c auth_toast_def)
qed

text \<open>
  C6. The login response \<open>null\<close> with status 200 has no token field. Destructuring it
  throws a TypeError, and the toast shows the engine's text, not
  \<open>No authentication token received\<close>.
\<close>

theorem login_null_body:
  "handleLogin_done ''a@b.com''
     (apiRequest (Responded \<lparr>resp_status = 200, resp_json = Inr JNull,
                              resp_text = Inl ''body stream already read''\<rparr>)) auth_init
     = auth_init\<lparr>auth_toasts := [\<lparr>title = ''Sign in failed'',
          description = JStr ''Cannot destructure property 'token' of 'response' as it is null.'',
          destructive = True\<rparr>]\<rparr>"
  by (simp add: handleLogin_done_def handleLogin_try_def handleLogin_catch_def apiRequest_def
      apiRequest_try_def read_body_def resp_ok_def destructure_null_text_def auth_toast_def
      auth_init_def Let_def)

end
